theory Spec2Isabelle
  imports Complex_Main
begin

section \<open>Python strings over the code points 0..255\<close>

text \<open>
  A Python \<open>str\<close> is a sequence of code points. The model keeps the code points
  0..255 (one \<^typ>\<open>char\<close> each), on which \<open>str.lower\<close>, \<open>str.isspace\<close> and the
  regular-expression classes \<open>\s\<close>, \<open>\w\<close> and \<open>\d\<close> are tabulated below as CPython
  computes them.
\<close>

definition code :: "char \<Rightarrow> nat" where
  "code c = of_char c"

definition is_space :: "char \<Rightarrow> bool" where
  \<comment> \<open>\<open>str.isspace\<close> and the class \<open>\s\<close>\<close>
  "is_space c = (let n = code c in
     (9 \<le> n \<and> n \<le> 13) \<or> (28 \<le> n \<and> n \<le> 32) \<or> n = 133 \<or> n = 160)"

definition is_digit :: "char \<Rightarrow> bool" where
  \<comment> \<open>the class \<open>\d\<close>\<close>
  "is_digit c = (let n = code c in 48 \<le> n \<and> n \<le> 57)"

definition is_upper :: "char \<Rightarrow> bool" where
  \<comment> \<open>the code points that \<open>str.lower\<close> changes\<close>
  "is_upper c = (let n = code c in
     (65 \<le> n \<and> n \<le> 90) \<or> (192 \<le> n \<and> n \<le> 222 \<and> n \<noteq> 215))"

definition is_word :: "char \<Rightarrow> bool" where
  \<comment> \<open>the class \<open>\w\<close>: alphanumeric code points and the underscore\<close>
  "is_word c = (let n = code c in
     (48 \<le> n \<and> n \<le> 57) \<or> (65 \<le> n \<and> n \<le> 90) \<or> n = 95 \<or> (97 \<le> n \<and> n \<le> 122)
     \<or> n = 170 \<or> n = 178 \<or> n = 179 \<or> n = 181 \<or> n = 185 \<or> n = 186
     \<or> n = 188 \<or> n = 189 \<or> n = 190
     \<or> (192 \<le> n \<and> n \<le> 255 \<and> n \<noteq> 215 \<and> n \<noteq> 247))"

definition lower_char :: "char \<Rightarrow> char" where
  "lower_char c = (if is_upper c then char_of (code c + 32) else c)"

definition lower :: "string \<Rightarrow> string" where
  \<comment> \<open>\<open>str.lower\<close>\<close>
  "lower s = map lower_char s"

definition strip :: "string \<Rightarrow> string" where
  \<comment> \<open>\<open>str.strip()\<close>: leading and trailing whitespace removed\<close>
  "strip s = rev (dropWhile is_space (rev (dropWhile is_space s)))"

section \<open>Skill normalization (gap\_analyzer.py)\<close>

definition is_kept :: "char \<Rightarrow> bool" where
  \<comment> \<open>the characters outside the class \<open>[^\w\s\+\#\.]\<close>\<close>
  "is_kept c = (is_word c \<or> is_space c \<or> c = CHR ''+'' \<or> c = CHR ''#'' \<or> c = CHR ''.'')"

function sub_spaces :: "string \<Rightarrow> string" where
  \<comment> \<open>\<open>re.sub(r'\s+', ' ', s)\<close>: every maximal run of whitespace becomes one space\<close>
  "sub_spaces [] = []"
| "sub_spaces (c # cs) =
     (if is_space c then CHR '' '' # sub_spaces (dropWhile is_space cs)
      else c # sub_spaces cs)"
  by pat_completeness auto
termination
  by (relation "measure length") (auto simp: length_dropWhile_le less_Suc_eq_le)

definition normalize_skill :: "string \<Rightarrow> string" where
  "normalize_skill skill =
     (let skill1 = strip (lower skill);
          skill2 = filter is_kept skill1;
          skill3 = sub_spaces skill2
      in skill3)"

section \<open>Experience (gap\_analyzer.py)\<close>

text \<open>
  The job-requirements dictionary: a key that is absent is \<open>None\<close>; for
  \<open>required_experience_years\<close> the value \<open>None\<close> of a present key is \<open>None\<close> too
  (\<open>dict.get\<close> returns \<open>None\<close> in both cases).
\<close>

record job_requirements =
  required_skills :: "string list option"
  preferred_skills :: "string list option"
  programming_languages :: "string list option"
  frameworks :: "string list option"
  databases :: "string list option"
  cloud_platforms :: "string list option"
  required_experience_years :: "int option"
  experience_level :: "string option"

definition empty_requirements :: job_requirements where
  \<comment> \<open>the empty dictionary \<open>{}\<close>\<close>
  "empty_requirements = \<lparr> required_skills = None, preferred_skills = None,
     programming_languages = None, frameworks = None, databases = None,
     cloud_platforms = None, required_experience_years = None,
     experience_level = None \<rparr>"

definition truthy_int :: "int option \<Rightarrow> bool" where
  \<comment> \<open>truth value of an \<open>Optional[int]\<close>: \<open>None\<close> and \<open>0\<close> are false\<close>
  "truthy_int v = (case v of None \<Rightarrow> False | Some n \<Rightarrow> n \<noteq> 0)"

definition calculate_experience_gap :: "int option \<Rightarrow> job_requirements \<Rightarrow> int option" where
  "calculate_experience_gap resume_experience job_reqs =
     (let required_years = required_experience_years job_reqs in
      if \<not> truthy_int required_years then None
      else
        let resume_experience' =
              (if \<not> truthy_int resume_experience then 2 else the resume_experience);
            gap = the required_years - resume_experience'
        in Some (if gap > 0 then gap else 0))"




section \<open>Similarity (gap\_analyzer.py and difflib.SequenceMatcher)\<close>

definition skill_synonyms :: "(string \<times> string list) list" where
  "skill_synonyms =
     [(''javascript'', [''js'', ''ecmascript'', ''javascript'']),
      (''typescript'', [''ts'', ''typescript'']),
      (''python'', [''python'', ''python3'', ''py'']),
      (''java'', [''java'', ''openjdk'']),
      (''react'', [''react.js'', ''reactjs'', ''react'']),
      (''node'', [''node.js'', ''nodejs'', ''node'']),
      (''postgresql'', [''postgres'', ''postgresql'', ''psql'']),
      (''mongodb'', [''mongo'', ''mongodb'']),
      (''aws'', [''amazon web services'', ''aws'']),
      (''gcp'', [''google cloud'', ''gcp'', ''google cloud platform'']),
      (''azure'', [''microsoft azure'', ''azure'']),
      (''docker'', [''docker'', ''containerization'']),
      (''kubernetes'', [''k8s'', ''kubernetes'']),
      (''fastapi'', [''fastapi'', ''fast api'']),
      (''django'', [''django'']),
      (''flask'', [''flask'']),
      (''express'', [''express.js'', ''expressjs'', ''express'']),
      (''redis'', [''redis'']),
      (''git'', [''git'', ''version control'']),
      (''ci/cd'', [''ci/cd'', ''continuous integration'', ''continuous deployment'', ''devops''])]"

fun starts_with :: "'a list \<Rightarrow> 'a list \<Rightarrow> bool" where
  "starts_with [] ys = True"
| "starts_with (x # xs) [] = False"
| "starts_with (x # xs) (y # ys) = (x = y \<and> starts_with xs ys)"

fun contains :: "'a list \<Rightarrow> 'a list \<Rightarrow> bool" where
  \<comment> \<open>\<open>contains s t\<close> is Python's \<open>t in s\<close> on strings: \<open>t\<close> occurs in \<open>s\<close> as a substring\<close>
  "contains [] t = (t = [])"
| "contains (c # cs) t = (starts_with t (c # cs) \<or> contains cs t)"

subsection \<open>\<open>SequenceMatcher(None, a, b).ratio()\<close>\<close>

text \<open>
  The matcher is built with \<open>isjunk = None\<close> and the default \<open>autojunk = True\<close>: no
  element is junk, and when \<open>b\<close> has 200 elements or more the elements that occur more
  than \<open>len(b) // 100 + 1\<close> times are "popular" and are dropped from the index \<open>b2j\<close>.
\<close>

definition b_indices :: "'a list \<Rightarrow> 'a \<Rightarrow> nat list" where
  "b_indices b elt = filter (\<lambda>j. b ! j = elt) [0..<length b]"

definition bpopular :: "'a list \<Rightarrow> 'a \<Rightarrow> bool" where
  "bpopular b elt = (length b \<ge> 200 \<and> length (b_indices b elt) > length b div 100 + 1)"

definition b2j :: "'a list \<Rightarrow> 'a \<Rightarrow> nat list" where
  \<comment> \<open>\<open>b2j.get(elt, [])\<close> after \<open>__chain_b\<close>\<close>
  "b2j b elt = (if bpopular b elt then [] else b_indices b elt)"

type_synonym best = "nat \<times> nat \<times> nat"

definition j2len_get :: "(nat \<rightharpoonup> nat) \<Rightarrow> nat \<Rightarrow> nat" where
  \<comment> \<open>\<open>j2len.get(j - 1, 0)\<close>; the key \<open>-1\<close> (for \<open>j = 0\<close>) is never in the dictionary\<close>
  "j2len_get j2len j = (if j = 0 then 0 else case j2len (j - 1) of None \<Rightarrow> 0 | Some k \<Rightarrow> k)"

definition flm_inner :: "nat \<Rightarrow> nat \<Rightarrow> (nat \<rightharpoonup> nat) \<Rightarrow> nat \<Rightarrow> best \<times> (nat \<rightharpoonup> nat) \<Rightarrow> best \<times> (nat \<rightharpoonup> nat)" where
  \<comment> \<open>one pass of the inner loop of \<open>find_longest_match\<close>, for \<open>a[i] = b[j]\<close>;
      \<open>i - k + 1\<close> is written \<open>Suc i - k\<close>, as \<open>k \<le> i + 1\<close>\<close>
  "flm_inner i blo j2len j st =
     (case st of ((besti, bestj, bestsize), newj2len) \<Rightarrow>
        if j < blo then st
        else
          let k = j2len_get j2len j + 1;
              newj2len' = newj2len(j \<mapsto> k)
          in if k > bestsize then ((Suc i - k, Suc j - k, k), newj2len')
             else ((besti, bestj, bestsize), newj2len'))"

definition flm_outer :: "'a list \<Rightarrow> 'a list \<Rightarrow> nat \<Rightarrow> nat \<Rightarrow> nat \<Rightarrow> best \<times> (nat \<rightharpoonup> nat) \<Rightarrow> best \<times> (nat \<rightharpoonup> nat)" where
  \<comment> \<open>one pass of the outer loop; the \<open>break\<close> at \<open>j >= bhi\<close> ends the ascending index list\<close>
  "flm_outer a b blo bhi i st =
     (case st of (bst, j2len) \<Rightarrow>
        fold (flm_inner i blo j2len) (takeWhile (\<lambda>j. j < bhi) (b2j b (a ! i))) (bst, Map.empty))"

function extend_back :: "'a list \<Rightarrow> 'a list \<Rightarrow> nat \<Rightarrow> nat \<Rightarrow> best \<Rightarrow> best" where
  "extend_back a b alo blo (besti, bestj, bestsize) =
     (if besti > alo \<and> bestj > blo \<and> a ! (besti - 1) = b ! (bestj - 1)
      then extend_back a b alo blo (besti - 1, bestj - 1, bestsize + 1)
      else (besti, bestj, bestsize))"
  by pat_completeness auto
termination
  by (relation "measure (\<lambda>(a, b, alo, blo, besti, bestj, bestsize). besti)") auto

function extend_forward :: "'a list \<Rightarrow> 'a list \<Rightarrow> nat \<Rightarrow> nat \<Rightarrow> best \<Rightarrow> best" where
  "extend_forward a b ahi bhi (besti, bestj, bestsize) =
     (if besti + bestsize < ahi \<and> bestj + bestsize < bhi
         \<and> a ! (besti + bestsize) = b ! (bestj + bestsize)
      then extend_forward a b ahi bhi (besti, bestj, bestsize + 1)
      else (besti, bestj, bestsize))"
  by pat_completeness auto
termination
  by (relation "measure (\<lambda>(a, b, ahi, bhi, besti, bestj, bestsize). ahi - (besti + bestsize))") auto

definition find_longest_match :: "'a list \<Rightarrow> 'a list \<Rightarrow> nat \<Rightarrow> nat \<Rightarrow> nat \<Rightarrow> nat \<Rightarrow> best" where
  \<comment> \<open>the two further loops of the source extend over junk elements only, and there are none\<close>
  "find_longest_match a b alo ahi blo bhi =
     (let bst = fst (fold (flm_outer a b blo bhi) [alo..<ahi] ((alo, blo, 0), Map.empty));
          bst1 = extend_back a b alo blo bst;
          bst2 = extend_forward a b ahi bhi bst1
      in bst2)"

text \<open>
  The match that \<open>find_longest_match\<close> returns lies inside \<open>a[alo:ahi]\<close>; this is what makes
  the recursion of \<open>get_matching_blocks\<close> terminate.
\<close>

definition flm_inv :: "nat \<Rightarrow> nat \<Rightarrow> best \<times> (nat \<rightharpoonup> nat) \<Rightarrow> bool" where
  "flm_inv alo n st =
     (case st of ((bi, bj, bs), m) \<Rightarrow>
        alo \<le> bi \<and> bi + bs \<le> n \<and> (\<forall>j v. m j = Some v \<longrightarrow> v \<le> n - alo))"

lemma j2len_get_le:
  "\<forall>j v. m j = Some v \<longrightarrow> v \<le> n \<Longrightarrow> j2len_get m j \<le> n"
  by (auto simp: j2len_get_def split: option.splits)

lemma flm_inner_inv:
  assumes "alo \<le> i" "\<forall>j v. j2len j = Some v \<longrightarrow> v \<le> i - alo" "flm_inv alo (Suc i) st"
  shows "flm_inv alo (Suc i) (flm_inner i blo j2len j st)"
proof -
  obtain bi bj bs m where st: "st = ((bi, bj, bs), m)" by (metis prod_cases3 surj_pair)
  have k: "j2len_get j2len j + 1 \<le> Suc i - alo"
    using j2len_get_le[OF assms(2), of j] assms(1) by simp
  show ?thesis
    using assms(1,3) k unfolding st flm_inv_def flm_inner_def Let_def
    by (auto split: if_splits)
qed

lemma flm_inner_fold_inv:
  assumes "alo \<le> i" "\<forall>j v. j2len j = Some v \<longrightarrow> v \<le> i - alo"
  shows "flm_inv alo (Suc i) st \<Longrightarrow> flm_inv alo (Suc i) (fold (flm_inner i blo j2len) js st)"
  by (induction js arbitrary: st) (simp_all add: flm_inner_inv[OF assms])

lemma flm_outer_inv:
  assumes "alo \<le> i" "flm_inv alo i st"
  shows "flm_inv alo (Suc i) (flm_outer a b blo bhi i st)"
proof -
  obtain bi bj bs m where st: "st = ((bi, bj, bs), m)" by (metis prod_cases3 surj_pair)
  have m: "\<forall>j v. m j = Some v \<longrightarrow> v \<le> i - alo"
    using assms(2) by (simp add: st flm_inv_def)
  have start: "flm_inv alo (Suc i) ((bi, bj, bs), Map.empty)"
    using assms(2) by (simp add: st flm_inv_def)
  show ?thesis
    unfolding st flm_outer_def prod.case
    by (rule flm_inner_fold_inv[OF assms(1) m start])
qed

lemma flm_outer_fold_inv:
  "alo \<le> ahi \<Longrightarrow>
   flm_inv alo ahi (fold (flm_outer a b blo bhi) [alo..<ahi] ((alo, blo, 0), Map.empty))"
proof (induction ahi)
  case 0
  then show ?case by (simp add: flm_inv_def)
next
  case (Suc n)
  show ?case
  proof (cases "alo \<le> n")
    case True
    with Suc.IH have "flm_inv alo n (fold (flm_outer a b blo bhi) [alo..<n] ((alo, blo, 0), Map.empty))"
      by simp
    with True show ?thesis by (simp add: flm_outer_inv)
  next
    case False
    with Suc.prems have "alo = Suc n" by simp
    then show ?thesis by (simp add: flm_inv_def)
  qed
qed

lemma extend_back_bounds:
  "alo \<le> bi \<and> bi + bs \<le> ahi \<Longrightarrow> extend_back a b alo blo (bi, bj, bs) = (i, j, k)
   \<Longrightarrow> alo \<le> i \<and> i + k \<le> ahi"
proof (induction a b alo blo "(bi, bj, bs)" arbitrary: bi bj bs rule: extend_back.induct)
  case (1 a b alo blo besti bestj bestsize)
  show ?case
  proof (cases "besti > alo \<and> bestj > blo \<and> a ! (besti - 1) = b ! (bestj - 1)")
    case True
    with "1.prems" have "extend_back a b alo blo (besti - 1, bestj - 1, bestsize + 1) = (i, j, k)"
      by simp
    moreover from True "1.prems"(1) have "alo \<le> besti - 1 \<and> besti - 1 + (bestsize + 1) \<le> ahi"
      by auto
    ultimately show ?thesis using "1.hyps" True by blast
  next
    case False
    with "1.prems" show ?thesis by auto
  qed
qed

lemma extend_forward_bounds:
  "alo \<le> bi \<and> bi + bs \<le> ahi \<Longrightarrow> extend_forward a b ahi bhi (bi, bj, bs) = (i, j, k)
   \<Longrightarrow> alo \<le> i \<and> i + k \<le> ahi"
proof (induction a b ahi bhi "(bi, bj, bs)" arbitrary: bi bj bs rule: extend_forward.induct)
  case (1 a b ahi bhi besti bestj bestsize)
  show ?case
  proof (cases "besti + bestsize < ahi \<and> bestj + bestsize < bhi
         \<and> a ! (besti + bestsize) = b ! (bestj + bestsize)")
    case True
    with "1.prems" have "extend_forward a b ahi bhi (besti, bestj, bestsize + 1) = (i, j, k)"
      by simp
    moreover from True "1.prems"(1) have "alo \<le> besti \<and> besti + (bestsize + 1) \<le> ahi"
      by simp
    ultimately show ?thesis using "1.hyps" True by blast
  next
    case False
    with "1.prems" show ?thesis by auto
  qed
qed

lemma find_longest_match_bounds:
  assumes "find_longest_match a b alo ahi blo bhi = (i, j, k)" "k \<noteq> 0"
  shows "alo \<le> i \<and> i + k \<le> ahi"
proof (cases "alo \<le> ahi")
  case True
  obtain bi bj bs m where f: "fold (flm_outer a b blo bhi) [alo..<ahi] ((alo, blo, 0), Map.empty) = ((bi, bj, bs), m)"
    by (metis prod_cases3 surj_pair)
  with flm_outer_fold_inv[OF True, of a b blo bhi] have b0: "alo \<le> bi \<and> bi + bs \<le> ahi"
    by (simp add: flm_inv_def)
  obtain bi1 bj1 bs1 where e: "extend_back a b alo blo (bi, bj, bs) = (bi1, bj1, bs1)"
    by (metis prod_cases3)
  from extend_back_bounds[OF b0 e] have b1: "alo \<le> bi1 \<and> bi1 + bs1 \<le> ahi" .
  from assms(1) f e have "extend_forward a b ahi bhi (bi1, bj1, bs1) = (i, j, k)"
    by (simp add: find_longest_match_def)
  from extend_forward_bounds[OF b1 this] show ?thesis .
next
  case False
  then have "find_longest_match a b alo ahi blo bhi = (alo, blo, 0)"
    by (simp add: find_longest_match_def)
  with assms show ?thesis by simp
qed

text \<open>
  \<open>get_matching_blocks\<close> works through a queue of windows; \<open>ratio\<close> only sums the
  sizes of the blocks found, which is what \<open>matching_size\<close> returns for one window and
  the two windows it spawns.
\<close>

function matching_size :: "'a list \<Rightarrow> 'a list \<Rightarrow> nat \<Rightarrow> nat \<Rightarrow> nat \<Rightarrow> nat \<Rightarrow> nat" where
  "matching_size a b alo ahi blo bhi =
     (case find_longest_match a b alo ahi blo bhi of (i, j, k) \<Rightarrow>
        if k = 0 then 0
        else k
          + (if alo < i \<and> blo < j then matching_size a b alo i blo j else 0)
          + (if i + k < ahi \<and> j + k < bhi then matching_size a b (i + k) ahi (j + k) bhi else 0))"
  by pat_completeness auto
termination
  apply (relation "measure (\<lambda>(a, b, alo, ahi, blo, bhi). ahi - alo)")
    apply simp
   apply (drule sym)
   apply clarsimp
   apply (frule find_longest_match_bounds, simp)
   apply arith
  apply (drule sym)
  apply clarsimp
  apply (frule find_longest_match_bounds, simp)
  apply arith
  done

text \<open>
  \<open>ratio\<close> is \<open>2.0 * matches / length\<close>, and \<open>1.0\<close> for two empty sequences. The
  quotient and the threshold it is compared with are kept as exact rationals.
\<close>

definition ratio :: "'a list \<Rightarrow> 'a list \<Rightarrow> rat" where
  "ratio a b =
     (let matches = matching_size a b 0 (length a) 0 (length b);
          len = length a + length b
      in if len \<noteq> 0 then 2 * of_nat matches / of_nat len else 1)"


subsection \<open>\<open>are_skills_similar\<close> and \<open>find_skill_matches\<close>\<close>

definition default_threshold :: rat where
  "default_threshold = 8 / 10"

definition in_same_synonyms :: "string \<Rightarrow> string \<Rightarrow> bool" where
  \<comment> \<open>the loop over \<open>skill_synonyms.items()\<close>\<close>
  "in_same_synonyms skill1 skill2 =
     list_ex (\<lambda>(canonical, synonyms). List.member synonyms skill1 \<and> List.member synonyms skill2)
       skill_synonyms"

definition are_skills_similar :: "string \<Rightarrow> string \<Rightarrow> rat \<Rightarrow> bool" where
  "are_skills_similar skill1 skill2 threshold =
     (let skill1' = normalize_skill skill1;
          skill2' = normalize_skill skill2
      in if skill1' = skill2' then True
         else if in_same_synonyms skill1' skill2' then True
         else if ratio skill1' skill2' \<ge> threshold then True
         else if contains skill2' skill1' \<or> contains skill1' skill2' then True
         else False)"

definition match_step :: "string list \<Rightarrow> string \<Rightarrow> string list \<times> string list \<Rightarrow> string list \<times> string list" where
  \<comment> \<open>the body of the loop over \<open>normalized_job\<close>; the inner loop with its \<open>break\<close> is \<open>list_ex\<close>\<close>
  "match_step normalized_resume job_skill acc =
     (case acc of (matching, missing) \<Rightarrow>
        if List.member normalized_resume job_skill then (matching @ [job_skill], missing)
        else if list_ex (\<lambda>resume_skill. are_skills_similar job_skill resume_skill default_threshold)
                  normalized_resume
        then (matching @ [job_skill], missing)
        else (matching, missing @ [job_skill]))"

definition find_skill_matches :: "string list \<Rightarrow> string list \<Rightarrow> string list \<times> string list" where
  "find_skill_matches resume_skills job_skills =
     (let normalized_resume = map normalize_skill resume_skills;
          normalized_job = map normalize_skill job_skills
      in fold (match_step normalized_resume) normalized_job ([], []))"

section \<open>Skill extraction (gap\_analyzer.py)\<close>

text \<open>
  The resume dictionary, as \<open>extract_skills_from_resume\<close> reads it. A key that is absent,
  \<open>None\<close> or an empty container is \<open>None\<close> or the empty list here (the source tests the
  truth value of \<open>get\<close>). An entry of a skills list need not be a string.
\<close>

datatype skill_entry = Str string | NotStr

record experience_item =
  content :: "string option"

record parsed_data =
  pd_programming_languages :: "skill_entry list"
  pd_skills :: "skill_entry list"
  pd_experience :: "experience_item list"

record resume_data =
  parsed :: "parsed_data option"

definition empty_resume :: resume_data where
  \<comment> \<open>the empty dictionary \<open>{}\<close>\<close>
  "empty_resume = \<lparr> parsed = None \<rparr>"

definition tech_patterns :: "string list" where
  "tech_patterns =
     [''python'', ''javascript'', ''java'', ''typescript'', ''php'', ''ruby'', ''go'', ''rust'',
      ''react'', ''angular'', ''vue'', ''nodejs'', ''express'', ''django'', ''flask'', ''fastapi'',
      ''postgresql'', ''mysql'', ''mongodb'', ''redis'', ''sqlite'', ''elasticsearch'',
      ''aws'', ''azure'', ''gcp'', ''docker'', ''kubernetes'', ''terraform'', ''jenkins'',
      ''git'', ''jira'', ''confluence'', ''slack'', ''figma'']"

definition extract_technologies_from_text :: "string option \<Rightarrow> string list" where
  "extract_technologies_from_text text =
     (case text of
        None \<Rightarrow> []
      | Some t \<Rightarrow>
          if t = [] then []
          else let t' = lower t in filter (\<lambda>tech. contains t' tech) tech_patterns)"

definition experience_content :: "experience_item \<Rightarrow> string option" where
  \<comment> \<open>\<open>exp.get('content', '')\<close>\<close>
  "experience_content entry = (case content entry of None \<Rightarrow> Some [] | Some t \<Rightarrow> Some t)"

definition clean_skill :: "skill_entry \<Rightarrow> string list" where
  \<comment> \<open>\<open>isinstance(skill, str) and skill.strip()\<close>, then \<open>skill.strip()\<close> is kept\<close>
  "clean_skill skill =
     (case skill of
        NotStr \<Rightarrow> []
      | Str s \<Rightarrow> if strip s \<noteq> [] then [strip s] else [])"

definition extract_skills_from_resume :: "resume_data \<Rightarrow> string list" where
  \<comment> \<open>\<open>list(set(cleaned_skills))\<close> has no defined order; the model keeps the last
      occurrence of each skill in place (\<open>remdups\<close>)\<close>
  "extract_skills_from_resume rd =
     (let skills =
            (case parsed rd of
               None \<Rightarrow> []
             | Some p \<Rightarrow>
                 pd_programming_languages p @ pd_skills p
                 @ map Str (concat (map (\<lambda>entry. extract_technologies_from_text (experience_content entry))
                                        (pd_experience p))));
          cleaned_skills = concat (map clean_skill skills)
      in remdups cleaned_skills)"

section \<open>Gap analysis (gap\_analyzer.py)\<close>

record PriorityItem =
  category :: string
  item :: string
  priority_score :: int
  urgency :: string

record GapAnalysisResult =
  overall_match_score :: rat
  matching_skills :: "string list"
  missing_required_skills :: "string list"
  missing_preferred_skills :: "string list"
  experience_gap :: "int option"
  experience_level_match :: bool
  matching_technologies :: "string list"
  missing_technologies :: "string list"
  matching_languages :: "string list"
  missing_languages :: "string list"
  matching_frameworks :: "string list"
  missing_frameworks :: "string list"
  matching_databases :: "string list"
  missing_databases :: "string list"
  matching_cloud_platforms :: "string list"
  missing_cloud_platforms :: "string list"
  recommendations :: "string list"
  improvement_priority :: "PriorityItem list"

definition default_result :: GapAnalysisResult where
  \<comment> \<open>the field defaults of the model class\<close>
  "default_result = \<lparr> overall_match_score = 0, matching_skills = [],
     missing_required_skills = [], missing_preferred_skills = [], experience_gap = None,
     experience_level_match = False, matching_technologies = [], missing_technologies = [],
     matching_languages = [], missing_languages = [], matching_frameworks = [],
     missing_frameworks = [], matching_databases = [], missing_databases = [],
     matching_cloud_platforms = [], missing_cloud_platforms = [], recommendations = [],
     improvement_priority = [] \<rparr>"

function str_nat :: "nat \<Rightarrow> string" where
  \<comment> \<open>decimal digits of a natural number\<close>
  "str_nat n = (if n < 10 then [char_of (48 + n)] else str_nat (n div 10) @ [char_of (48 + n mod 10)])"
  by pat_completeness auto
termination
  by (relation "measure id") auto




definition priority_item :: "string \<Rightarrow> int \<Rightarrow> string \<Rightarrow> string \<Rightarrow> PriorityItem" where
  "priority_item cat score urg it =
     \<lparr> category = cat, item = it, priority_score = score, urgency = urg \<rparr>"

definition sort_descending :: "PriorityItem list \<Rightarrow> PriorityItem list" where
  \<comment> \<open>\<open>priorities.sort(key=lambda x: x['priority_score'], reverse=True)\<close>: a stable sort,
      descending; items of equal score keep their order\<close>
  "sort_descending priorities = sort_key (\<lambda>x. - priority_score x) priorities"

definition collect_priorities :: "GapAnalysisResult \<Rightarrow> PriorityItem list" where
  \<comment> \<open>the six loops that append to \<open>priorities\<close>, in the order of the source\<close>
  "collect_priorities gap_result =
       map (priority_item ''Required Skill'' 10 ''Critical'') (missing_required_skills gap_result)
     @ map (priority_item ''Programming Language'' 8 ''High'') (missing_languages gap_result)
     @ map (priority_item ''Framework'' 7 ''High'') (missing_frameworks gap_result)
     @ map (priority_item ''Database'' 6 ''Medium'') (missing_databases gap_result)
     @ map (priority_item ''Cloud Platform'' 6 ''Medium'') (missing_cloud_platforms gap_result)
     @ map (priority_item ''Preferred Skill'' 4 ''Low'') (missing_preferred_skills gap_result)"

definition calculate_priority_scores :: "GapAnalysisResult \<Rightarrow> PriorityItem list" where
  "calculate_priority_scores gap_result =
     (let priorities = collect_priorities gap_result
      in sort_descending priorities)"





section \<open>Regular expressions (the patterns of job\_analyzer.py)\<close>

text \<open>
  A backtracking matcher for the constructs that the patterns of the source use. A match
  attempt returns the ways to match a prefix of the text, best first, as Python's \<open>re\<close>
  tries them: a greedy quantifier offers the longest repetition first, a lazy one the
  shortest, an alternation its left branch. Each result is the remaining text and the
  text of capturing group 1 (every pattern with a group has exactly one, and it takes
  part in every match).
\<close>

datatype cls = Digit | Space | Dot

datatype regex =
    Lit string
  | Star cls
  | Plus cls
  | LazyStar cls
  | Opt regex
  | Alt regex regex
  | Seq regex regex
  | Group regex
  | Eol

definition cat :: "regex list \<Rightarrow> regex" where
  \<comment> \<open>a pattern written as the sequence of its parts\<close>
  "cat rs = foldr Seq rs (Lit [])"

fun in_cls :: "cls \<Rightarrow> char \<Rightarrow> bool" where
  "in_cls Digit c = is_digit c"
| "in_cls Space c = is_space c"
| "in_cls Dot c = (c \<noteq> CHR 0x0A)"

definition lit_match :: "bool \<Rightarrow> string \<Rightarrow> string \<Rightarrow> bool" where
  \<comment> \<open>the literal \<open>w\<close> at the start of \<open>s\<close>; with \<open>IGNORECASE\<close> the letters are compared
      in lower case\<close>
  "lit_match ignorecase w s =
     (if ignorecase then starts_with (lower w) (lower s) else starts_with w s)"

definition repetitions :: "cls \<Rightarrow> string \<Rightarrow> nat" where
  "repetitions c s = length (takeWhile (in_cls c) s)"

fun rmatch :: "bool \<Rightarrow> regex \<Rightarrow> string \<times> string \<Rightarrow> (string \<times> string) list" where
  "rmatch ic (Lit w) (s, g) = (if lit_match ic w s then [(drop (length w) s, g)] else [])"
| "rmatch ic (Star c) (s, g) = map (\<lambda>k. (drop k s, g)) (rev [0..<Suc (repetitions c s)])"
| "rmatch ic (Plus c) (s, g) = map (\<lambda>k. (drop k s, g)) (rev [1..<Suc (repetitions c s)])"
| "rmatch ic (LazyStar c) (s, g) = map (\<lambda>k. (drop k s, g)) [0..<Suc (repetitions c s)]"
| "rmatch ic (Opt r) st = rmatch ic r st @ [st]"
| "rmatch ic (Alt r1 r2) st = rmatch ic r1 st @ rmatch ic r2 st"
| "rmatch ic (Seq r1 r2) st = concat (map (rmatch ic r2) (rmatch ic r1 st))"
| "rmatch ic (Group r) (s, g) =
     map (\<lambda>(s', g'). (s', take (length s - length s') s)) (rmatch ic r (s, g))"
| "rmatch ic Eol (s, g) = (if s = [] \<or> hd s = CHR 0x0A then [(s, g)] else [])"

fun search :: "bool \<Rightarrow> regex \<Rightarrow> string \<Rightarrow> string option" where
  \<comment> \<open>\<open>re.search(pattern, text)\<close>: the first match at the leftmost position where one
      exists; the result is \<open>match.group(1)\<close>\<close>
  "search ic r [] = (case rmatch ic r ([], []) of [] \<Rightarrow> None | (rest, g) # _ \<Rightarrow> Some g)"
| "search ic r (c # cs) =
     (case rmatch ic r (c # cs, []) of [] \<Rightarrow> search ic r cs | (rest, g) # _ \<Rightarrow> Some g)"

function sub_remove :: "bool \<Rightarrow> regex \<Rightarrow> string \<Rightarrow> string" where
  \<comment> \<open>\<open>re.sub(pattern, '', text)\<close>: every match, found from left to right, is deleted.
      A match of the patterns used here is never empty (each starts with a literal); an
      empty match deletes nothing and the scan moves on by one character\<close>
  "sub_remove ic r [] = []"
| "sub_remove ic r (c # cs) =
     (case rmatch ic r (c # cs, []) of
        [] \<Rightarrow> c # sub_remove ic r cs
      | (rest, g) # _ \<Rightarrow>
          if length rest < length (c # cs) then sub_remove ic r rest
          else c # sub_remove ic r cs)"
  by pat_completeness auto
termination
  by (relation "measure (\<lambda>(ic, r, s). length s)") auto

fun replace :: "string \<Rightarrow> string \<Rightarrow> string \<Rightarrow> string" where
  \<comment> \<open>\<open>s.replace(old, new)\<close> for a non-empty \<open>old\<close>: its occurrences, from left to right
      and not overlapping, become \<open>new\<close>\<close>
  "replace old new [] = []"
| "replace old new (c # cs) =
     (if old \<noteq> [] \<and> starts_with old (c # cs)
      then new @ replace old new (drop (length old - 1) cs)
      else c # replace old new cs)"

datatype error = ValueError string | ProviderError string

definition str_to_int :: "string \<Rightarrow> int" where
  \<comment> \<open>the value of a string of decimal digits\<close>
  "str_to_int s = foldl (\<lambda>n c. 10 * n + int (code c - 48)) 0 s"

definition max_str_digits :: nat where
  \<comment> \<open>CPython's default limit on the digits of an integer string conversion
      (\<open>sys.get_int_max_str_digits()\<close>); the program does not change it\<close>
  "max_str_digits = 4300"

definition py_int :: "string \<Rightarrow> error + int" where
  \<comment> \<open>\<open>int(s)\<close> for a string of decimal digits: a string with more digits than the limit
      (leading zeros count) raises \<open>ValueError\<close>\<close>
  "py_int s =
     (if length s > max_str_digits
      then Inl (ValueError (''Exceeds the limit (4300 digits) for integer string conversion: value has ''
             @ str_nat (length s)
             @ '' digits; use sys.set_int_max_str_digits() to increase the limit''))
      else Inr (str_to_int s))"

text \<open>
  \<open>str.title\<close> and \<open>str.upper\<close> are applied to the words of the fixed vocabularies only,
  which are ASCII: a letter is one of \<open>a-z\<close>, \<open>A-Z\<close>.
\<close>

definition is_ascii_lower :: "char \<Rightarrow> bool" where
  "is_ascii_lower c = (97 \<le> code c \<and> code c \<le> 122)"

definition is_ascii_upper :: "char \<Rightarrow> bool" where
  "is_ascii_upper c = (65 \<le> code c \<and> code c \<le> 90)"

definition upper_char :: "char \<Rightarrow> char" where
  "upper_char c = (if is_ascii_lower c then char_of (code c - 32) else c)"

definition upper :: "string \<Rightarrow> string" where
  "upper s = map upper_char s"

fun title_from :: "bool \<Rightarrow> string \<Rightarrow> string" where
  \<comment> \<open>the flag says whether the previous character is a letter\<close>
  "title_from prev [] = []"
| "title_from prev (c # cs) =
     (if prev then lower_char c else upper_char c)
       # title_from (is_ascii_lower c \<or> is_ascii_upper c) cs"

definition title :: "string \<Rightarrow> string" where
  "title s = title_from False s"

section \<open>Job analysis (job\_analyzer.py)\<close>

record JobRequirements =
  jr_required_skills :: "string list"
  jr_preferred_skills :: "string list"
  jr_required_experience_years :: "int option"
  jr_experience_level :: string
  jr_technologies :: "string list"
  jr_programming_languages :: "string list"
  jr_frameworks :: "string list"
  jr_databases :: "string list"
  jr_cloud_platforms :: "string list"
  jr_tools :: "string list"
  jr_certifications :: "string list"
  jr_education_requirements :: "string list"
  jr_responsibilities :: "string list"
  jr_company_size :: "string option"
  jr_industry :: "string option"
  jr_work_location :: "string option"
  jr_salary_range :: "string option"

definition default_requirements :: JobRequirements where
  \<comment> \<open>\<open>JobRequirements()\<close>: the field defaults of the model class\<close>
  "default_requirements = \<lparr> jr_required_skills = [], jr_preferred_skills = [],
     jr_required_experience_years = None, jr_experience_level = ''entry'',
     jr_technologies = [], jr_programming_languages = [], jr_frameworks = [],
     jr_databases = [], jr_cloud_platforms = [], jr_tools = [], jr_certifications = [],
     jr_education_requirements = [], jr_responsibilities = [], jr_company_size = None,
     jr_industry = None, jr_work_location = None, jr_salary_range = None \<rparr>"

definition any_in :: "string list \<Rightarrow> string \<Rightarrow> bool" where
  \<comment> \<open>\<open>any(term in text for term in terms)\<close>\<close>
  "any_in terms text = list_ex (\<lambda>kw. contains text kw) terms"

definition exp_patterns :: "regex list" where
  "exp_patterns =
     [cat [Group (Plus Digit), Opt (Lit ''+''), Star Space, Lit ''year'', Opt (Lit ''s''),
           Star Space, Opt (cat [Lit ''of'', Star Space]), Lit ''experience''],
      cat [Group (Plus Digit), Opt (Lit ''+''), Star Space, Lit ''year'', Opt (Lit ''s''),
           Star Space, Alt (Lit ''in'') (Lit ''with'')],
      cat [Lit ''minimum'', Star Space, Group (Plus Digit), Star Space, Lit ''year'',
           Opt (Lit ''s'')],
      cat [Group (Plus Digit), Lit ''+'', Star Space, Lit ''year'', Opt (Lit ''s'')]]"

fun first_match :: "regex list \<Rightarrow> string \<Rightarrow> string option" where
  \<comment> \<open>the loop over \<open>exp_patterns\<close> with its \<open>break\<close> at the first pattern that matches:
      \<open>match.group(1)\<close> of that match\<close>
  "first_match [] text = None"
| "first_match (pattern # patterns) text =
     (case search False pattern text of
        Some digits \<Rightarrow> Some digits
      | None \<Rightarrow> first_match patterns text)"

definition first_years :: "regex list \<Rightarrow> string \<Rightarrow> error + int option" where
  \<comment> \<open>\<open>int(match.group(1))\<close> at the first match; \<open>Inr None\<close> when no pattern matches\<close>
  "first_years patterns text =
     (case first_match patterns text of
        None \<Rightarrow> Inr None
      | Some digits \<Rightarrow> (case py_int digits of Inl e \<Rightarrow> Inl e | Inr n \<Rightarrow> Inr (Some n)))"

definition prog_languages :: "string list" where
  "prog_languages =
     [''python'', ''javascript'', ''java'', ''c++'', ''c#'', ''php'', ''ruby'', ''go'', ''rust'',
      ''typescript'', ''swift'', ''kotlin'', ''scala'', ''r'', ''matlab'', ''sql'']"

definition framework_names :: "string list" where
  "framework_names =
     [''react'', ''angular'', ''vue'', ''nodejs'', ''express'', ''django'', ''flask'',
      ''spring'', ''rails'', ''laravel'', ''fastapi'', ''nextjs'', ''nuxt'']"

definition database_names :: "string list" where
  "database_names =
     [''postgresql'', ''mysql'', ''mongodb'', ''redis'', ''sqlite'', ''oracle'',
      ''cassandra'', ''elasticsearch'', ''dynamodb'']"

definition cloud_platform_names :: "string list" where
  "cloud_platform_names =
     [''aws'', ''azure'', ''gcp'', ''google cloud'', ''heroku'', ''digitalocean'']"

definition tool_names :: "string list" where
  "tool_names =
     [''git'', ''docker'', ''kubernetes'', ''jenkins'', ''terraform'', ''ansible'',
      ''jira'', ''confluence'', ''slack'', ''figma'', ''postman'']"

definition extract_basic_requirements :: "string \<Rightarrow> error + JobRequirements" where
  \<comment> \<open>\<open>int(match.group(1))\<close> runs after the experience level is set and before the
      vocabularies are scanned; when it raises, the function ends there\<close>
  "extract_basic_requirements job_description =
     (let text = lower job_description;
          level =
            (if any_in [''senior'', ''sr.'', ''lead'', ''principal''] text then ''senior''
             else if any_in [''mid-level'', ''intermediate'', ''3+ years'', ''4+ years''] text then ''mid''
             else if any_in [''entry'', ''junior'', ''new grad'', ''recent graduate''] text then ''entry''
             else jr_experience_level default_requirements)
      in case first_years exp_patterns text of
           Inl e \<Rightarrow> Inl e
         | Inr found \<Rightarrow>
             (let years =
                    (case found of
                       Some n \<Rightarrow> Some n
                     | None \<Rightarrow> jr_required_experience_years default_requirements);
                  languages = map title (filter (\<lambda>lang. contains text lang) prog_languages);
                  fws = map title
                          (filter (\<lambda>framework. contains text framework
                                               \<or> contains text (replace ''js'' ''.js'' framework))
                             framework_names);
                  dbs = map title (filter (\<lambda>db. contains text db) database_names);
                  clouds = map (\<lambda>platform. if List.member [''aws'', ''gcp''] platform
                                             then upper platform else title platform)
                             (filter (\<lambda>platform. contains text platform) cloud_platform_names);
                  tls = map title (filter (\<lambda>tool. contains text tool) tool_names);
                  location =
                    (if any_in [''remote'', ''work from home'', ''wfh''] text then Some ''remote''
                     else if any_in [''hybrid'', ''flexible''] text then Some ''hybrid''
                     else if any_in [''on-site'', ''onsite'', ''office''] text then Some ''onsite''
                     else jr_work_location default_requirements)
              in Inr (default_requirements \<lparr> jr_experience_level := level,
                   jr_required_experience_years := years,
                   jr_programming_languages := languages,
                   jr_frameworks := fws,
                   jr_databases := dbs,
                   jr_cloud_platforms := clouds,
                   jr_tools := tls,
                   jr_work_location := location \<rparr>)))"

definition patterns_to_remove :: "regex list" where
  "patterns_to_remove =
     [cat [Lit ''apply now'', LazyStar Dot, Eol],
      cat [Lit ''submit'', LazyStar Dot, Lit ''resume'', LazyStar Dot, Eol],
      cat [Lit ''equal opportunity employer'', LazyStar Dot, Eol],
      cat [Lit ''we are an equal'', LazyStar Dot, Eol]]"

definition clean_job_description :: "string \<Rightarrow> string" where
  \<comment> \<open>the patterns are applied in turn with \<open>IGNORECASE | MULTILINE\<close>\<close>
  "clean_job_description job_description =
     (let cleaned = sub_spaces (strip job_description);
          cleaned' = fold (\<lambda>pattern c. sub_remove True pattern c) patterns_to_remove cleaned
      in strip cleaned')"

text \<open>
  The service object. What the two providers answer is outside the program: the fields
  \<open>openai_reply\<close> and \<open>gemini_reply\<close> give the outcome of the request and of parsing its
  answer (an exception or the requirements parsed), the latter for each attempt, since
  \<open>analyze_job_description\<close> can ask Gemini twice.
\<close>

record JobAnalyzerService =
  openai_enabled :: bool
  gemini_enabled :: bool
  openai_reply :: "string \<Rightarrow> error + JobRequirements"
  gemini_reply :: "nat \<Rightarrow> string \<Rightarrow> error + JobRequirements"

definition analyze_with_openai :: "JobAnalyzerService \<Rightarrow> string \<Rightarrow> error + JobRequirements" where
  "analyze_with_openai svc job_description =
     (if \<not> openai_enabled svc then Inl (ValueError ''OpenAI API key not configured'')
      else openai_reply svc job_description)"

definition analyze_with_gemini :: "JobAnalyzerService \<Rightarrow> nat \<Rightarrow> string \<Rightarrow> error + JobRequirements" where
  "analyze_with_gemini svc attempt job_description =
     (if \<not> gemini_enabled svc then Inl (ValueError ''Gemini API key not configured'')
      else gemini_reply svc attempt job_description)"

definition validate_requirements :: "JobRequirements \<Rightarrow> JobRequirements" where
  \<comment> \<open>\<open>list(set(xs))\<close> has no defined order; the model keeps the last occurrence of each
      element in place (\<open>remdups\<close>)\<close>
  "validate_requirements requirements =
     (let r1 = requirements \<lparr>
            jr_required_skills := remdups (jr_required_skills requirements),
            jr_preferred_skills := remdups (jr_preferred_skills requirements),
            jr_technologies := remdups (jr_technologies requirements),
            jr_programming_languages := remdups (jr_programming_languages requirements),
            jr_frameworks := remdups (jr_frameworks requirements),
            jr_databases := remdups (jr_databases requirements),
            jr_cloud_platforms := remdups (jr_cloud_platforms requirements),
            jr_tools := remdups (jr_tools requirements) \<rparr>;
          r2 = (if \<not> List.member [''entry'', ''mid'', ''senior'', ''executive''] (jr_experience_level r1)
                then r1 \<lparr> jr_experience_level := ''entry'' \<rparr> else r1);
          r3 = (if truthy_int (jr_required_experience_years r2)
                   \<and> the (jr_required_experience_years r2) < 0
                then r2 \<lparr> jr_required_experience_years := None \<rparr> else r2)
      in r3)"

definition analyze_job_description :: "JobAnalyzerService \<Rightarrow> string \<Rightarrow> error + JobRequirements" where
  \<comment> \<open>the two nested \<open>try\<close> blocks: an exception of the first attempt leads to the second,
      one of the second to the rule-based extraction, whose own exception is not caught\<close>
  "analyze_job_description svc job_description =
     (if job_description = [] \<or> strip job_description = []
      then Inl (ValueError ''Job description cannot be empty'')
      else
        let cleaned_description = clean_job_description job_description;
            first_try =
              (if openai_enabled svc then analyze_with_openai svc cleaned_description
               else if gemini_enabled svc then analyze_with_gemini svc 0 cleaned_description
               else extract_basic_requirements cleaned_description);
            outcome =
              (case first_try of
                 Inr r \<Rightarrow> Inr r
               | Inl openai_error \<Rightarrow>
                   (let second_try =
                          (if gemini_enabled svc
                           then analyze_with_gemini svc (if openai_enabled svc then 0 else 1)
                                  cleaned_description
                           else extract_basic_requirements cleaned_description)
                    in case second_try of
                         Inr r \<Rightarrow> Inr r
                       | Inl gemini_error \<Rightarrow> extract_basic_requirements cleaned_description))
        in case outcome of
             Inl e \<Rightarrow> Inl e
           | Inr requirements \<Rightarrow> Inr (validate_requirements requirements))"

section \<open>Sample inputs\<close>



definition rule_based_service :: JobAnalyzerService where
  \<comment> \<open>a service with no API key configured\<close>
  "rule_based_service = \<lparr> openai_enabled = False, gemini_enabled = False,
     openai_reply = (\<lambda>d. Inl (ProviderError ''no client'')),
     gemini_reply = (\<lambda>n d. Inl (ProviderError ''no client'')) \<rparr>"

section \<open>Properties\<close>

lemma calculate_experience_gap_nonneg:
  "calculate_experience_gap r j = Some g \<Longrightarrow> 0 \<le> g"
  by (auto simp: calculate_experience_gap_def Let_def split: if_splits)

text \<open>
  Claim C7. \<open>calculate_experience_gap\<close> clamps at zero and propagates absence: resume
  experience 7 against 5 required years gives 0, resume experience 2 against 5 required
  years gives 3, no resume experience and no required-years value gives \<open>None\<close>, and
  every integer it returns is at least 0.
\<close>

theorem experience_gap_clamp:
  "calculate_experience_gap (Some 7) (empty_requirements\<lparr>required_experience_years := Some 5\<rparr>) = Some 0
   \<and> calculate_experience_gap (Some 2) (empty_requirements\<lparr>required_experience_years := Some 5\<rparr>) = Some 3
   \<and> calculate_experience_gap None empty_requirements = None
   \<and> (\<forall>r j g. calculate_experience_gap r j = Some g \<longrightarrow> 0 \<le> g)"
  by (auto simp: calculate_experience_gap_def empty_requirements_def truthy_int_def Let_def
           split: if_splits)

theorem experience_gap_clamp_witness:
  "calculate_experience_gap None (empty_requirements\<lparr>required_experience_years := Some 9\<rparr>) = Some 7
   \<and> (0::int) \<le> 7"
proof -
  have e: "calculate_experience_gap None (empty_requirements\<lparr>required_experience_years := Some 9\<rparr>) = Some 7"
    by (simp add: calculate_experience_gap_def empty_requirements_def truthy_int_def)
  from experience_gap_clamp have "\<forall>r j g. calculate_experience_gap r j = Some g \<longrightarrow> 0 \<le> g"
    by blast
  with e show ?thesis by blast
qed

subsection \<open>Normalization and similarity\<close>

lemma contains_Nil: "contains s []"
  by (cases s) simp_all

lemma in_same_synonyms_commute: "in_same_synonyms x y = in_same_synonyms y x"
  by (auto simp: in_same_synonyms_def list_ex_iff)

text \<open>
  Claim C1 says that \<open>are_skills_similar\<close> is false when exactly one of the two skills
  normalizes to the empty string. The code returns true there: the last test asks whether
  one normalized string occurs in the other, and the empty string occurs in every string.
  So a skill that normalizes to the empty string is similar to every skill.
\<close>

theorem empty_skill_matches_everything:
  "normalize_skill a = [] \<or> normalize_skill b = [] \<Longrightarrow> are_skills_similar a b t"
  by (auto simp: are_skills_similar_def Let_def contains_Nil)

theorem empty_skill_matches_everything_witness:
  "normalize_skill '''' = [] \<and> normalize_skill ''Python'' \<noteq> []
   \<and> are_skills_similar '''' ''Python'' default_threshold"
proof -
  have e: "normalize_skill '''' = []" by code_simp
  have n: "normalize_skill ''Python'' \<noteq> []" by code_simp
  from e have "normalize_skill '''' = [] \<or> normalize_skill ''Python'' = []" by simp
  from empty_skill_matches_everything [OF this] e n show ?thesis by simp
qed

text \<open>
  Claim C2 says that \<open>normalize_skill\<close> is idempotent. The code strips the ends before it
  removes the special characters, so the space after a removed leading character stays:
  \<open>"- Python"\<close> becomes \<open>" python"\<close>, and a second pass gives \<open>"python"\<close>.
\<close>

theorem normalize_skill_not_idempotent:
  "normalize_skill ''- Python'' = '' python''
   \<and> normalize_skill (normalize_skill ''- Python'') = ''python''
   \<and> normalize_skill (normalize_skill ''- Python'') \<noteq> normalize_skill ''- Python''"
  by code_simp

text \<open>
  Claim C3 says that every string in the two lists of \<open>find_skill_matches\<close> is trimmed
  (among the other properties of the normalized form). The job skill \<open>"- Python"\<close>
  is returned as \<open>" python"\<close>, with its leading space, in the missing list against an
  empty resume and in the matching list against the resume skill \<open>"Python"\<close>.
\<close>

theorem find_skill_matches_untrimmed:
  "find_skill_matches [] [''- Python''] = ([], ['' python''])
   \<and> find_skill_matches [''Python''] [''- Python''] = (['' python''], [])
   \<and> strip '' python'' \<noteq> '' python''"
  by code_simp

text \<open>
  Claim C4 says that \<open>are_skills_similar\<close> is symmetric. The ratio of
  \<open>SequenceMatcher\<close> depends on the order of its arguments: it is 14/17 for
  \<open>analytics\<close> against \<open>analysis\<close> and 12/17 the other way round, on either side of
  the default threshold 0.8, and none of the other tests holds for this pair.
\<close>

theorem are_skills_similar_asymmetric:
  "are_skills_similar ''analytics'' ''analysis'' default_threshold
   \<noteq> are_skills_similar ''analysis'' ''analytics'' default_threshold"
  by code_simp

text \<open>
  Claim C4, amended. \<open>are_skills_similar a b t\<close> and \<open>are_skills_similar b a t\<close> are
  equal whenever the ratio test gives the same verdict in both orders on the normalized
  strings: the exact-match, synonym and containment tests are symmetric.
\<close>

theorem are_skills_similar_symmetric_up_to_ratio:
  assumes "(ratio (normalize_skill a) (normalize_skill b) \<ge> t)
         = (ratio (normalize_skill b) (normalize_skill a) \<ge> t)"
  shows "are_skills_similar a b t = are_skills_similar b a t"
  using assms in_same_synonyms_commute [of "normalize_skill a" "normalize_skill b"]
  by (auto simp: are_skills_similar_def Let_def)

theorem are_skills_similar_symmetric_up_to_ratio_witness:
  "are_skills_similar ''React'' ''Angular'' default_threshold
   = are_skills_similar ''Angular'' ''React'' default_threshold"
proof -
  have "(ratio (normalize_skill ''React'') (normalize_skill ''Angular'') \<ge> default_threshold)
      = (ratio (normalize_skill ''Angular'') (normalize_skill ''React'') \<ge> default_threshold)"
    by code_simp
  from are_skills_similar_symmetric_up_to_ratio [OF this] show ?thesis .
qed


subsection \<open>Gap analysis: score, experience, priorities\<close>

lemma find_skill_matches_Nil: "find_skill_matches rs [] = ([], [])"
  by (simp add: find_skill_matches_def)

lemma match_step_fold:
  "fold (match_step nr) xs (m, s) = (m', s') \<Longrightarrow>
     set m' \<union> set s' = set m \<union> set s \<union> set xs
     \<and> length m' + length s' = length m + length s + length xs"
proof (induction xs arbitrary: m s)
  case Nil
  then show ?case by simp
next
  case (Cons x xs)
  obtain m1 s1 where step: "match_step nr x (m, s) = (m1, s1)" by (cases "match_step nr x (m, s)")
  with Cons.prems have "fold (match_step nr) xs (m1, s1) = (m', s')" by simp
  from Cons.IH [OF this] have
    "set m' \<union> set s' = set m1 \<union> set s1 \<union> set xs
     \<and> length m' + length s' = length m1 + length s1 + length xs" .
  moreover from step have
    "set m1 \<union> set s1 = set m \<union> set s \<union> {x} \<and> length m1 + length s1 = length m + length s + 1"
    by (auto simp: match_step_def split: if_splits)
  ultimately show ?case by auto
qed

lemma find_skill_matches_partition:
  assumes "find_skill_matches rs js = (matching, missing)"
  shows "set matching \<union> set missing = normalize_skill ` set js"
    and "length matching + length missing = length js"
  using match_step_fold [of "map normalize_skill rs" "map normalize_skill js" "[]" "[]" matching missing]
    assms
  by (simp_all add: find_skill_matches_def)











lemma sort_descending_stable:
  "filter (\<lambda>x. priority_score x = k) (sort_descending xs) = filter (\<lambda>x. priority_score x = k) xs"
  unfolding sort_descending_def
  using sort_key_stable [of "\<lambda>x. - priority_score x" "- k" xs] by simp

text \<open>
  Claim C8. For a result with exactly one missing item in each of the six categories,
  \<open>calculate_priority_scores\<close> returns the six items in descending order of score: the
  required skill (10) first, then the language (8), the framework (7), the database (6),
  the cloud platform (6, after the database: equal scores keep insertion order) and the
  preferred skill (4) last.
\<close>

theorem priority_ordering:
  assumes "missing_required_skills g = [rs]" "missing_languages g = [lang]"
    "missing_frameworks g = [fw]" "missing_databases g = [db]"
    "missing_cloud_platforms g = [cloud]" "missing_preferred_skills g = [ps]"
  shows "calculate_priority_scores g =
     [\<lparr> category = ''Required Skill'', item = rs, priority_score = 10, urgency = ''Critical'' \<rparr>,
      \<lparr> category = ''Programming Language'', item = lang, priority_score = 8, urgency = ''High'' \<rparr>,
      \<lparr> category = ''Framework'', item = fw, priority_score = 7, urgency = ''High'' \<rparr>,
      \<lparr> category = ''Database'', item = db, priority_score = 6, urgency = ''Medium'' \<rparr>,
      \<lparr> category = ''Cloud Platform'', item = cloud, priority_score = 6, urgency = ''Medium'' \<rparr>,
      \<lparr> category = ''Preferred Skill'', item = ps, priority_score = 4, urgency = ''Low'' \<rparr>]
    \<and> map priority_score (calculate_priority_scores g) = [10, 8, 7, 6, 6, 4]"
  using assms
  by (simp add: calculate_priority_scores_def collect_priorities_def sort_descending_def
        priority_item_def)

theorem priority_ordering_witness:
  "map priority_score (calculate_priority_scores
     (default_result \<lparr> missing_required_skills := [''typescript''],
        missing_preferred_skills := [''graphql''], missing_languages := [''go''],
        missing_frameworks := [''vue.js''], missing_databases := [''mongodb''],
        missing_cloud_platforms := [''azure''] \<rparr>)) = [10, 8, 7, 6, 6, 4]"
  using priority_ordering [of "default_result \<lparr> missing_required_skills := [''typescript''],
        missing_preferred_skills := [''graphql''], missing_languages := [''go''],
        missing_frameworks := [''vue.js''], missing_databases := [''mongodb''],
        missing_cloud_platforms := [''azure''] \<rparr>"
      "''typescript''" "''go''" "''vue.js''" "''mongodb''" "''azure''" "''graphql''"]
  by (simp add: default_result_def)

subsection \<open>Empty input\<close>

lemma dropWhile_all: "list_all P xs \<Longrightarrow> dropWhile P xs = []"
  by (induction xs) simp_all

lemma dropWhile_some: "x \<in> set xs \<Longrightarrow> \<not> P x \<Longrightarrow> dropWhile P xs \<noteq> []"
  by (induction xs) auto

lemma strip_blank:
  assumes "list_all is_space s"
  shows "strip s = []"
  unfolding strip_def dropWhile_all [OF assms] by simp

lemma strip_not_blank:
  assumes "\<not> list_all is_space s"
  shows "strip s \<noteq> []"
proof -
  let ?d = "dropWhile is_space s"
  from assms obtain x where "x \<in> set s" "\<not> is_space x"
    by (auto simp: list_all_iff)
  then have d: "?d \<noteq> []" by (rule dropWhile_some)
  then have "\<not> is_space (hd ?d)" by (rule hd_dropWhile)
  moreover from d have "hd ?d \<in> set (rev ?d)" by simp
  ultimately have "dropWhile is_space (rev ?d) \<noteq> []" by (rule dropWhile_some [rotated])
  then show ?thesis by (simp add: strip_def)
qed

lemma extract_basic_requirements_empty:
  "extract_basic_requirements [] = Inr default_requirements"
  by code_simp

lemma extract_skills_from_resume_empty: "extract_skills_from_resume empty_resume = []"
  by (simp add: extract_skills_from_resume_def empty_resume_def)

text \<open>What a match captures is a piece of the text searched, so it is no longer.\<close>

lemma rmatch_bounds:
  "\<forall>x \<in> set (rmatch ic r st).
     length (fst x) \<le> length (fst st) \<and> (snd x = snd st \<or> length (snd x) \<le> length (fst st))"
proof (induction ic r st rule: rmatch.induct)
  case (7 ic r1 r2 st)
  show ?case
  proof
    fix x assume "x \<in> set (rmatch ic (Seq r1 r2) st)"
    then obtain y where y: "y \<in> set (rmatch ic r1 st)" and x: "x \<in> set (rmatch ic r2 y)"
      by auto
    from "7.IH"(1) y have
      "length (fst y) \<le> length (fst st) \<and> (snd y = snd st \<or> length (snd y) \<le> length (fst st))"
      by blast
    moreover from "7.IH"(2) [OF y] x have
      "length (fst x) \<le> length (fst y) \<and> (snd x = snd y \<or> length (snd x) \<le> length (fst y))"
      by blast
    ultimately show
      "length (fst x) \<le> length (fst st) \<and> (snd x = snd st \<or> length (snd x) \<le> length (fst st))"
      by auto
  qed
qed (auto split: if_splits)

lemma search_bound: "search ic r s = Some g \<Longrightarrow> length g \<le> length s"
proof (induction s)
  case Nil
  then show ?case
    using rmatch_bounds [of ic r "([], [])"] by (auto split: list.splits)
next
  case (Cons c cs)
  show ?case
  proof (cases "rmatch ic r (c # cs, [])")
    case Nil
    with Cons show ?thesis by simp
  next
    case (Cons x xs)
    with Cons.prems have "snd x = g" by (cases x) simp
    with Cons rmatch_bounds [of ic r "(c # cs, [])"] show ?thesis by auto
  qed
qed

lemma first_match_bound: "first_match ps text = Some ds \<Longrightarrow> length ds \<le> length text"
  by (induction ps) (auto split: option.splits dest: search_bound)

lemma extract_basic_requirements_returns:
  assumes "case first_match exp_patterns (lower jd) of
             None \<Rightarrow> True | Some ds \<Rightarrow> length ds \<le> max_str_digits"
  shows "\<exists>r. extract_basic_requirements jd = Inr r"
  using assms
  by (auto simp: extract_basic_requirements_def first_years_def py_int_def Let_def
           split: option.splits)

lemma extract_basic_requirements_short:
  assumes "length jd \<le> max_str_digits"
  shows "\<exists>r. extract_basic_requirements jd = Inr r"
proof (rule extract_basic_requirements_returns)
  show "case first_match exp_patterns (lower jd) of
          None \<Rightarrow> True | Some ds \<Rightarrow> length ds \<le> max_str_digits"
  proof (cases "first_match exp_patterns (lower jd)")
    case None
    then show ?thesis by simp
  next
    case (Some ds)
    from first_match_bound [OF Some] have "length ds \<le> length jd" by (simp add: lower_def)
    with assms show ?thesis by (simp add: Some)
  qed
qed

text \<open>A run of more than 4300 digits in front of \<open>years of experience\<close> is captured whole.\<close>

lemma years_tail:
  "rmatch False
     (cat [Opt (Lit ''+''), Star Space, Lit ''year'', Opt (Lit ''s''), Star Space,
           Opt (cat [Lit ''of'', Star Space]), Lit ''experience''])
     ('' years of experience'', g) = [([], g)]"
  by code_simp

lemma repetitions_run:
  assumes "list_all (in_cls c) ds" "takeWhile (in_cls c) t = []"
  shows "repetitions c (ds @ t) = length ds"
proof -
  from assms(1) have "takeWhile (in_cls c) (ds @ t) = ds @ takeWhile (in_cls c) t"
    by (intro takeWhile_append2) (simp add: list_all_iff)
  with assms(2) show ?thesis by (simp add: repetitions_def)
qed

lemma group_plus_head:
  assumes "list_all (in_cls c) ds" "takeWhile (in_cls c) t = []" "ds \<noteq> []"
  shows "\<exists>rest. rmatch ic (Group (Plus c)) (ds @ t, g) = (t, ds) # rest"
proof -
  let ?n = "length ds"
  from assms(3) have "rev [1..<Suc ?n] = ?n # rev [1..<?n]" by (simp add: Suc_le_eq)
  then have "rmatch ic (Plus c) (ds @ t, g)
             = (drop ?n (ds @ t), g) # map (\<lambda>k. (drop k (ds @ t), g)) (rev [1..<?n])"
    by (simp only: rmatch.simps repetitions_run [OF assms(1,2)] list.map)
  then show ?thesis by simp
qed

lemma search_digit_run:
  assumes "list_all (in_cls c) ds" "takeWhile (in_cls c) t = []" "ds \<noteq> []"
    and "rmatch ic r (t, ds) = [([], ds)]"
  shows "search ic (Seq (Group (Plus c)) r) (ds @ t) = Some ds"
proof -
  from group_plus_head [OF assms(1-3)] obtain rest
    where "rmatch ic (Group (Plus c)) (ds @ t, []) = (t, ds) # rest" by blast
  with assms(4) have m: "rmatch ic (Seq (Group (Plus c)) r) (ds @ t, [])
                        = ([], ds) # concat (map (rmatch ic r) rest)"
    by simp
  from assms(3) obtain d ds' where "ds = d # ds'" by (cases ds) auto
  then have "ds @ t = d # (ds' @ t)" by simp
  then have "search ic (Seq (Group (Plus c)) r) (ds @ t)
             = (case rmatch ic (Seq (Group (Plus c)) r) (ds @ t, []) of
                  [] \<Rightarrow> search ic (Seq (Group (Plus c)) r) (ds' @ t)
                | (rest, g) # _ \<Rightarrow> Some g)"
    by (simp only: search.simps)
  with m show ?thesis by simp
qed

lemma long_digits_captured:
  assumes "0 < n"
  shows "first_match exp_patterns (replicate n CHR ''9'' @ '' years of experience'')
         = Some (replicate n CHR ''9'')"
proof -
  have d: "in_cls Digit CHR ''9''" by code_simp
  then have a: "list_all (in_cls Digit) (replicate n CHR ''9'')" by (simp add: list_all_iff)
  have t: "takeWhile (in_cls Digit) '' years of experience'' = []" by code_simp
  from assms have ne: "replicate n CHR ''9'' \<noteq> []" by simp
  have "search False
          (Seq (Group (Plus Digit))
             (cat [Opt (Lit ''+''), Star Space, Lit ''year'', Opt (Lit ''s''), Star Space,
                   Opt (cat [Lit ''of'', Star Space]), Lit ''experience'']))
          (replicate n CHR ''9'' @ '' years of experience'') = Some (replicate n CHR ''9'')"
    by (rule search_digit_run [OF a t ne years_tail])
  moreover have "hd exp_patterns
        = Seq (Group (Plus Digit))
             (cat [Opt (Lit ''+''), Star Space, Lit ''year'', Opt (Lit ''s''), Star Space,
                   Opt (cat [Lit ''of'', Star Space]), Lit ''experience''])"
    by (simp add: exp_patterns_def cat_def)
  ultimately have "search False (hd exp_patterns)
          (replicate n CHR ''9'' @ '' years of experience'') = Some (replicate n CHR ''9'')"
    by simp
  then show ?thesis by (simp add: exp_patterns_def)
qed

lemma lower_digits_years:
  "lower (replicate n CHR ''9'' @ '' years of experience'')
   = replicate n CHR ''9'' @ '' years of experience''"
proof -
  have "lower_char CHR ''9'' = CHR ''9''" by code_simp
  moreover have "lower '' years of experience'' = '' years of experience''" by code_simp
  ultimately show ?thesis by (simp add: lower_def)
qed

lemma long_digits_raise:
  assumes "max_str_digits < n"
  shows "extract_basic_requirements (replicate n CHR ''9'' @ '' years of experience'')
         = Inl (ValueError (''Exceeds the limit (4300 digits) for integer string conversion: value has ''
             @ str_nat n
             @ '' digits; use sys.set_int_max_str_digits() to increase the limit''))"
proof -
  from assms have "0 < n" by simp
  from long_digits_captured [OF this] assms show ?thesis
    by (simp add: extract_basic_requirements_def Let_def lower_digits_years first_years_def
          py_int_def)
qed

lemma extract_years_example:
  "map_sum id jr_required_experience_years (extract_basic_requirements ''5+ years of experience'')
   = Inr (Some 5)"
  by code_simp

text \<open>
  Claim C9 says, among other things, that \<open>extract_basic_requirements\<close> returns requirements
  on any string. A job description with 4301 digits in front of \<open>years of experience\<close>
  makes \<open>int(match.group(1))\<close> raise \<open>ValueError\<close>: the digits exceed the limit of the
  integer string conversion.
\<close>

theorem extract_basic_requirements_raises:
  "extract_basic_requirements (replicate 4301 CHR ''9'' @ '' years of experience'')
   = Inl (ValueError ''Exceeds the limit (4300 digits) for integer string conversion: value has 4301 digits; use sys.set_int_max_str_digits() to increase the limit'')"
proof -
  have n: "max_str_digits < 4301" by (simp add: max_str_digits_def)
  have d: "str_nat 4301 = ''4301''" by code_simp
  from long_digits_raise [OF n] show ?thesis by (simp only: d append.simps)
qed

text \<open>
  Claim C9, amended. \<open>analyze_job_description\<close> raises an error for every job description
  that is empty or consists of whitespace only, whatever the providers are.
  \<open>extract_basic_requirements\<close> gives the default requirements for the empty string, and it
  returns requirements for every string whose first years-of-experience match captures at
  most 4300 digits, in particular for every string of at most 4300 characters.
  \<open>extract_skills_from_resume\<close> gives the empty list for the empty dictionary.
\<close>

theorem empty_input_handling:
  "(list_all is_space jd \<longrightarrow>
      analyze_job_description svc jd = Inl (ValueError ''Job description cannot be empty''))
   \<and> extract_basic_requirements [] = Inr default_requirements
   \<and> ((case first_match exp_patterns (lower jd) of
          None \<Rightarrow> True | Some ds \<Rightarrow> length ds \<le> max_str_digits)
        \<longrightarrow> (\<exists>r. extract_basic_requirements jd = Inr r))
   \<and> (length jd \<le> max_str_digits \<longrightarrow> (\<exists>r. extract_basic_requirements jd = Inr r))
   \<and> extract_skills_from_resume empty_resume = []"
  using extract_basic_requirements_returns [of jd] extract_basic_requirements_short [of jd]
  by (simp add: analyze_job_description_def strip_blank extract_basic_requirements_empty
        extract_skills_from_resume_empty)

theorem empty_input_handling_witness:
  "list_all is_space ''   ''
   \<and> analyze_job_description rule_based_service ''   ''
       = Inl (ValueError ''Job description cannot be empty'')
   \<and> length ''5+ years of experience'' \<le> max_str_digits
   \<and> (\<exists>r. extract_basic_requirements ''5+ years of experience'' = Inr r)"
proof -
  have b: "list_all is_space ''   ''" by code_simp
  have l: "length ''5+ years of experience'' \<le> max_str_digits"
    by (simp add: max_str_digits_def)
  from empty_input_handling [of "''   ''" rule_based_service] b
  have 1: "analyze_job_description rule_based_service ''   ''
           = Inl (ValueError ''Job description cannot be empty'')" by blast
  from empty_input_handling [of "''5+ years of experience''" rule_based_service] l
  have 2: "\<exists>r. extract_basic_requirements ''5+ years of experience'' = Inr r" by blast
  from b 1 l 2 show ?thesis by blast
qed

end
